theory Spec2Isabelle
  imports Complex_Main
begin

section \<open>The binomial lattice pricer of bTreeOptionCalc.py\<close>

text \<open>
  The embedding follows \<^verbatim>\<open>option_tree\<close> of \<^verbatim>\<open>src/bTreeOptionCalc.py\<close> line by line.
  The six numeric arguments are Python floats (the integers 40, 40 and 4 that the script
  passes for the two prices and the rate behave as the floats of the same value) and \<^verbatim>\<open>time_steps\<close> is a Python integer, an \<^typ>\<open>int\<close> here, so that
  negative step counts are inputs of the model. Floats are not reals: products round
  and overflow to an infinity, \<^verbatim>\<open>math.exp\<close> and \<^verbatim>\<open>**\<close> raise OverflowError, and how
  accurate the C library is differs from one machine to the next. So the float
  operations are a parameter of the model, a \<open>platform\<close>: what is proved about
  \<^verbatim>\<open>option_tree\<close> is proved for every platform, whatever it rounds to and whenever it
  raises, and \<open>binary64\<close> is the platform of IEEE 754 doubles, on which the calls of
  the examples are evaluated. The exceptions the body can raise are values of
  \<open>py_error\<close>; memory is unbounded.
\<close>

subsection \<open>Python floats\<close>

text \<open>
  A float is a finite number, an infinity or NaN. The two zeros are one value
  \<open>Flt 0\<close>: no operation of \<^verbatim>\<open>option_tree\<close> tells them apart (a division by either raises
  ZeroDivisionError, and comparisons treat them as equal). The integer literals
  \<^verbatim>\<open>0\<close>, \<^verbatim>\<open>1\<close> and \<^verbatim>\<open>100\<close> of the body meet floats only, where Python converts them to
  the floats of the same value.
\<close>

datatype pyfloat = Flt real | PosInf | NegInf | NaN

datatype py_error = ZeroDivisionError | IndexError | OverflowError | ValueError

text \<open>\<^verbatim>\<open>x > y\<close> and \<^verbatim>\<open>x >= y\<close> on floats: every comparison with NaN is false.\<close>

fun py_gt :: "pyfloat \<Rightarrow> pyfloat \<Rightarrow> bool" where
  "py_gt (Flt a) (Flt b) = (b < a)"
| "py_gt (Flt a) NegInf = True"
| "py_gt PosInf (Flt b) = True"
| "py_gt PosInf NegInf = True"
| "py_gt _ _ = False"

fun py_ge :: "pyfloat \<Rightarrow> pyfloat \<Rightarrow> bool" where
  "py_ge (Flt a) (Flt b) = (b \<le> a)"
| "py_ge NaN _ = False"
| "py_ge _ NaN = False"
| "py_ge PosInf _ = True"
| "py_ge _ NegInf = True"
| "py_ge _ _ = False"

text \<open>
  \<^verbatim>\<open>max(0, x)\<close> keeps its first argument unless the second is greater: it gives \<^verbatim>\<open>x\<close>
  when \<^verbatim>\<open>x > 0\<close> and \<^verbatim>\<open>0\<close> otherwise, also for NaN.
\<close>

definition py_max0 :: "pyfloat \<Rightarrow> pyfloat" where
  "py_max0 x = (if py_gt x (Flt 0) then x else Flt 0)"

text \<open>Unary minus flips the sign and never rounds.\<close>

fun py_neg :: "pyfloat \<Rightarrow> pyfloat" where
  "py_neg (Flt a) = Flt (- a)"
| "py_neg PosInf = NegInf"
| "py_neg NegInf = PosInf"
| "py_neg NaN = NaN"

subsection \<open>The platform\<close>

text \<open>
  The float operations the body uses. \<open>f_add\<close>, \<open>f_sub\<close>, \<open>f_mul\<close> and \<open>f_div\<close> are
  \<^verbatim>\<open>+\<close>, \<^verbatim>\<open>-\<close>, \<^verbatim>\<open>*\<close> and \<^verbatim>\<open>/\<close> by a divisor that is not zero: they never raise.
  \<open>m_exp\<close> is \<^verbatim>\<open>math.exp\<close> and \<open>f_pow\<close> is \<^verbatim>\<open>**\<close> with a float base and a positive
  integer exponent: both can raise, OverflowError when the result is out of range
  (and ValueError should the C library report a domain error).
\<close>

record platform =
  f_add :: "pyfloat \<Rightarrow> pyfloat \<Rightarrow> pyfloat"
  f_sub :: "pyfloat \<Rightarrow> pyfloat \<Rightarrow> pyfloat"
  f_mul :: "pyfloat \<Rightarrow> pyfloat \<Rightarrow> pyfloat"
  f_div :: "pyfloat \<Rightarrow> pyfloat \<Rightarrow> pyfloat"
  m_exp :: "pyfloat \<Rightarrow> py_error + pyfloat"
  f_pow :: "pyfloat \<Rightarrow> nat \<Rightarrow> py_error + pyfloat"

text \<open>Python's \<^verbatim>\<open>/\<close> raises ZeroDivisionError on a zero divisor.\<close>

definition py_truediv :: "platform \<Rightarrow> pyfloat \<Rightarrow> pyfloat \<Rightarrow> py_error + pyfloat" where
  "py_truediv P a b = (if b = Flt 0 then Inl ZeroDivisionError else Inr (f_div P a b))"

text \<open>
  \<^verbatim>\<open>x ** n\<close> for a float \<^verbatim>\<open>x\<close> and an integer \<^verbatim>\<open>n\<close> that is not negative, as the
  loop indices are: the interpreter answers \<^verbatim>\<open>1.0\<close> itself when \<^verbatim>\<open>n\<close> is 0, for
  every \<^verbatim>\<open>x\<close>, NaN included.
\<close>

definition py_pow :: "platform \<Rightarrow> pyfloat \<Rightarrow> nat \<Rightarrow> py_error + pyfloat" where
  "py_pow P x n = (if n = 0 then Inr (Flt 1) else f_pow P x n)"

subsection \<open>Grids and checked indexing\<close>

type_synonym grid = "pyfloat list list"

text \<open>
  \<^verbatim>\<open>g[i][j]\<close> and \<^verbatim>\<open>g[i][j] = v\<close> for indices that are never negative: Python raises
  IndexError when either index is out of range.
\<close>

definition grid_get :: "grid \<Rightarrow> nat \<Rightarrow> nat \<Rightarrow> py_error + pyfloat" where
  "grid_get g i j =
     (if i < length g \<and> j < length (g ! i) then Inr (g ! i ! j) else Inl IndexError)"

definition grid_set :: "grid \<Rightarrow> nat \<Rightarrow> nat \<Rightarrow> pyfloat \<Rightarrow> py_error + grid" where
  "grid_set g i j v =
     (if i < length g \<and> j < length (g ! i) then Inr (g[i := (g ! i)[j := v]])
      else Inl IndexError)"

subsection \<open>Ranges and for loops\<close>

text \<open>
  \<^verbatim>\<open>range(n)\<close> yields \<open>0, \<dots>, n - 1\<close> and nothing when \<open>n \<le> 0\<close>;
  \<^verbatim>\<open>range(n, -1, -1)\<close> yields \<open>n, \<dots>, 0\<close> and nothing when \<open>n < 0\<close>. Every value
  yielded is non-negative, so the loop variables are naturals.
\<close>

definition range_upto :: "int \<Rightarrow> nat list" where
  "range_upto n = [0..<nat n]"

definition range_downto :: "int \<Rightarrow> nat list" where
  "range_downto n = rev [0..<nat (n + 1)]"

text \<open>
  A \<^verbatim>\<open>for\<close> loop threads the mutated grid through its body, once per value, in
  order; an exception raised by the body ends the loop.
\<close>

fun for_loop :: "'i list \<Rightarrow> ('i \<Rightarrow> 's \<Rightarrow> py_error + 's) \<Rightarrow> 's \<Rightarrow> py_error + 's" where
  "for_loop [] body s = Inr s"
| "for_loop (i # is) body s =
     (case body i s of Inl e \<Rightarrow> Inl e | Inr s' \<Rightarrow> for_loop is body s')"

subsection \<open>The body of option\_tree\<close>

text \<open>
  Lines 41 to 44: the discount factor and the risk-neutral probability. The divisor
  \<^verbatim>\<open>100\<close> of line 41 is not zero, so that division cannot raise.
\<close>

definition risk_free_rate :: "platform \<Rightarrow> pyfloat \<Rightarrow> pyfloat" where
  "risk_free_rate P risk_free_pct = f_div P risk_free_pct (Flt 100)"

definition discount_factor :: "platform \<Rightarrow> pyfloat \<Rightarrow> pyfloat \<Rightarrow> py_error + pyfloat" where
  "discount_factor P risk_free_pct delta_time_step =
     m_exp P (f_mul P (py_neg (risk_free_rate P risk_free_pct)) delta_time_step)"

definition growth_e :: "platform \<Rightarrow> pyfloat \<Rightarrow> pyfloat \<Rightarrow> py_error + pyfloat" where
  "growth_e P risk_free_pct delta_time_step =
     m_exp P (f_mul P (risk_free_rate P risk_free_pct) delta_time_step)"

definition prob_p :: "platform \<Rightarrow> pyfloat \<Rightarrow> pyfloat \<Rightarrow> pyfloat \<Rightarrow> py_error + pyfloat" where
  "prob_p P e uptick downtick = py_truediv P (f_sub P e downtick) (f_sub P uptick downtick)"

text \<open>Lines 46 and 47: the triangular grids of zeros.\<close>

definition zero_tree :: "int \<Rightarrow> grid" where
  "zero_tree time_steps =
     map (\<lambda>step. map (\<lambda>_. Flt 0) (range_upto (int step + 1))) (range_upto (time_steps + 1))"

text \<open>
  Lines 49 to 51: the stock prices, node by node. \<open>node_price\<close> is the right-hand side
  of line 51, \<^verbatim>\<open>stock_price * (uptick ** j) * (downtick ** (step - j))\<close>, evaluated from
  left to right.
\<close>

definition node_price ::
  "platform \<Rightarrow> pyfloat \<Rightarrow> pyfloat \<Rightarrow> pyfloat \<Rightarrow> nat \<Rightarrow> nat \<Rightarrow> py_error + pyfloat" where
  "node_price P stock_price uptick downtick step j =
     (case py_pow P uptick j of
        Inl e \<Rightarrow> Inl e
      | Inr up \<Rightarrow>
          (case py_pow P downtick (step - j) of
             Inl e \<Rightarrow> Inl e
           | Inr down \<Rightarrow> Inr (f_mul P (f_mul P stock_price up) down)))"

definition stock_body ::
  "platform \<Rightarrow> pyfloat \<Rightarrow> pyfloat \<Rightarrow> pyfloat \<Rightarrow> nat \<Rightarrow> nat \<Rightarrow> grid \<Rightarrow> py_error + grid" where
  "stock_body P stock_price uptick downtick step j stock_tree =
     (case node_price P stock_price uptick downtick step j of
        Inl e \<Rightarrow> Inl e
      | Inr v \<Rightarrow> grid_set stock_tree step j v)"

definition fill_stock ::
  "platform \<Rightarrow> pyfloat \<Rightarrow> pyfloat \<Rightarrow> pyfloat \<Rightarrow> int \<Rightarrow> grid \<Rightarrow> py_error + grid" where
  "fill_stock P stock_price uptick downtick time_steps stock_tree =
     for_loop (range_upto (time_steps + 1))
       (\<lambda>step. for_loop (range_upto (int step + 1))
          (stock_body P stock_price uptick downtick step))
       stock_tree"

text \<open>
  Lines 53 and 54: the terminal payoff. The body runs only when \<^verbatim>\<open>range(time_steps + 1)\<close>
  is not empty, that is when \<^verbatim>\<open>time_steps\<close> is not negative, so the row index
  \<^verbatim>\<open>time_steps\<close> is a natural there.
\<close>

definition payoff :: "platform \<Rightarrow> pyfloat \<Rightarrow> pyfloat \<Rightarrow> pyfloat" where
  "payoff P ex_price s = py_max0 (f_sub P s ex_price)"

definition terminal_body ::
  "platform \<Rightarrow> pyfloat \<Rightarrow> grid \<Rightarrow> int \<Rightarrow> nat \<Rightarrow> grid \<Rightarrow> py_error + grid" where
  "terminal_body P ex_price stock_tree time_steps j option_grid =
     (case grid_get stock_tree (nat time_steps) j of
        Inl e \<Rightarrow> Inl e
      | Inr s \<Rightarrow> grid_set option_grid (nat time_steps) j (payoff P ex_price s))"

definition fill_terminal :: "platform \<Rightarrow> pyfloat \<Rightarrow> grid \<Rightarrow> int \<Rightarrow> grid \<Rightarrow> py_error + grid" where
  "fill_terminal P ex_price stock_tree time_steps option_grid =
     for_loop (range_upto (time_steps + 1))
       (terminal_body P ex_price stock_tree time_steps) option_grid"

text \<open>
  Lines 56 to 61: backward induction, from step \<open>time_steps - 1\<close> down to 0.
  \<open>node_value\<close> is lines 60 and 61 on the two values read on lines 58 and 59.
\<close>

definition node_value :: "platform \<Rightarrow> pyfloat \<Rightarrow> pyfloat \<Rightarrow> pyfloat \<Rightarrow> pyfloat \<Rightarrow> pyfloat" where
  "node_value P p df up_value down_value =
     (let expected_value =
            f_add P (f_mul P p up_value) (f_mul P (f_sub P (Flt 1) p) down_value)
      in py_max0 (f_mul P df expected_value))"

definition induct_body ::
  "platform \<Rightarrow> pyfloat \<Rightarrow> pyfloat \<Rightarrow> nat \<Rightarrow> nat \<Rightarrow> grid \<Rightarrow> py_error + grid" where
  "induct_body P p df step j option_grid =
     (case grid_get option_grid (step + 1) (j + 1) of
        Inl e \<Rightarrow> Inl e
      | Inr up_value \<Rightarrow>
          (case grid_get option_grid (step + 1) j of
             Inl e \<Rightarrow> Inl e
           | Inr down_value \<Rightarrow>
               grid_set option_grid step j (node_value P p df up_value down_value)))"

definition backward_steps :: "int \<Rightarrow> nat list" where
  "backward_steps time_steps = range_downto (time_steps - 1)"

definition induct_back ::
  "platform \<Rightarrow> pyfloat \<Rightarrow> pyfloat \<Rightarrow> int \<Rightarrow> grid \<Rightarrow> py_error + grid" where
  "induct_back P p df time_steps option_grid =
     for_loop (backward_steps time_steps)
       (\<lambda>step. for_loop (range_upto (int step + 1)) (induct_body P p df step))
       option_grid"

text \<open>
  What a call gives back: the value printed on line 63 and the two grids returned on
  line 64.
\<close>

record outcome =
  printed_root :: pyfloat
  stock_tree :: grid
  option_grid :: grid

definition option_tree ::
  "platform \<Rightarrow> pyfloat \<Rightarrow> pyfloat \<Rightarrow> pyfloat \<Rightarrow> pyfloat \<Rightarrow> pyfloat \<Rightarrow> int \<Rightarrow> pyfloat \<Rightarrow>
     py_error + outcome" where
  "option_tree P stock_price ex_price uptick downtick risk_free_pct time_steps delta_time_step =
     (case discount_factor P risk_free_pct delta_time_step of
        Inl err \<Rightarrow> Inl err
      | Inr df \<Rightarrow>
     (case growth_e P risk_free_pct delta_time_step of
        Inl err \<Rightarrow> Inl err
      | Inr e \<Rightarrow>
     (case prob_p P e uptick downtick of
        Inl err \<Rightarrow> Inl err
      | Inr p \<Rightarrow>
     (case fill_stock P stock_price uptick downtick time_steps (zero_tree time_steps) of
        Inl err \<Rightarrow> Inl err
      | Inr st \<Rightarrow>
     (case fill_terminal P ex_price st time_steps (zero_tree time_steps) of
        Inl err \<Rightarrow> Inl err
      | Inr ot1 \<Rightarrow>
     (case induct_back P p df time_steps ot1 of
        Inl err \<Rightarrow> Inl err
      | Inr ot \<Rightarrow>
     (case grid_get ot 0 0 of
        Inl err \<Rightarrow> Inl err
      | Inr root_value \<Rightarrow>
          Inr \<lparr>printed_root = root_value, stock_tree = st, option_grid = ot\<rparr>)))))))"

subsection \<open>The shape of a grid\<close>

text \<open>A grid of \<open>n\<close> rows is triangular when row \<open>i\<close> has \<open>i + 1\<close> entries.\<close>

definition triangular :: "nat \<Rightarrow> grid \<Rightarrow> bool" where
  "triangular n g \<longleftrightarrow> length g = n \<and> (\<forall>i<n. length (g ! i) = i + 1)"

subsection \<open>IEEE 754 doubles\<close>

text \<open>
  Rounding to the nearest integer, ties to the even one.
\<close>

definition round_even :: "real \<Rightarrow> int" where
  "round_even t =
     (let f = \<lfloor>t\<rfloor>; r = t - of_int f
      in if r < 1 / 2 then f else if 1 / 2 < r then f + 1 else if even f then f else f + 1)"

text \<open>
  Rounding a real to a double: 53 significant bits, exponents from \<open>-1022\<close> (with
  subnormals below) to 1023, nearest value with ties to even, and an infinity when
  the rounded value does not fit.
\<close>

definition fl64 :: "real \<Rightarrow> pyfloat" where
  "fl64 x =
     (if x = 0 then Flt 0
      else
        (let e = max \<lfloor>log 2 \<bar>x\<bar>\<rfloor> (- 1022);
             q = 2 powi (e - 52);
             y = of_int (round_even (x / q)) * q
         in if 2 ^ 1024 \<le> \<bar>y\<bar> then (if 0 < x then PosInf else NegInf) else Flt y))"

fun b64_add :: "pyfloat \<Rightarrow> pyfloat \<Rightarrow> pyfloat" where
  "b64_add (Flt a) (Flt b) = fl64 (a + b)"
| "b64_add NaN _ = NaN"
| "b64_add _ NaN = NaN"
| "b64_add PosInf NegInf = NaN"
| "b64_add NegInf PosInf = NaN"
| "b64_add PosInf _ = PosInf"
| "b64_add _ PosInf = PosInf"
| "b64_add NegInf _ = NegInf"
| "b64_add _ NegInf = NegInf"

definition b64_sub :: "pyfloat \<Rightarrow> pyfloat \<Rightarrow> pyfloat" where
  "b64_sub a b = b64_add a (py_neg b)"

text \<open>An infinity times or divided by a finite number takes the sign of the product.\<close>

definition signed_inf :: "bool \<Rightarrow> real \<Rightarrow> pyfloat" where
  "signed_inf positive b =
     (if b = 0 then NaN else if (0 < b) = positive then PosInf else NegInf)"

fun b64_mul :: "pyfloat \<Rightarrow> pyfloat \<Rightarrow> pyfloat" where
  "b64_mul (Flt a) (Flt b) = fl64 (a * b)"
| "b64_mul NaN _ = NaN"
| "b64_mul _ NaN = NaN"
| "b64_mul PosInf (Flt b) = signed_inf True b"
| "b64_mul NegInf (Flt b) = signed_inf False b"
| "b64_mul (Flt a) PosInf = signed_inf True a"
| "b64_mul (Flt a) NegInf = signed_inf False a"
| "b64_mul PosInf PosInf = PosInf"
| "b64_mul NegInf NegInf = PosInf"
| "b64_mul PosInf NegInf = NegInf"
| "b64_mul NegInf PosInf = NegInf"

text \<open>
  The quotient by a divisor that is not zero. A finite number divided by an infinity
  is a zero.
\<close>

fun b64_div :: "pyfloat \<Rightarrow> pyfloat \<Rightarrow> pyfloat" where
  "b64_div (Flt a) (Flt b) = fl64 (a / b)"
| "b64_div NaN _ = NaN"
| "b64_div _ NaN = NaN"
| "b64_div PosInf (Flt b) = signed_inf True b"
| "b64_div NegInf (Flt b) = signed_inf False b"
| "b64_div (Flt a) _ = Flt 0"
| "b64_div _ _ = NaN"

text \<open>
  \<^verbatim>\<open>math.exp\<close> and \<^verbatim>\<open>**\<close> with a correctly rounded C library: a finite argument whose
  result rounds to an infinity raises OverflowError, a result that rounds to zero is
  returned as zero.
\<close>

definition checked :: "pyfloat \<Rightarrow> py_error + pyfloat" where
  "checked y = (if y = PosInf \<or> y = NegInf then Inl OverflowError else Inr y)"

fun b64_exp :: "pyfloat \<Rightarrow> py_error + pyfloat" where
  "b64_exp (Flt a) = checked (fl64 (exp a))"
| "b64_exp PosInf = Inr PosInf"
| "b64_exp NegInf = Inr (Flt 0)"
| "b64_exp NaN = Inr NaN"

fun b64_pow :: "pyfloat \<Rightarrow> nat \<Rightarrow> py_error + pyfloat" where
  "b64_pow (Flt a) n = checked (fl64 (a ^ n))"
| "b64_pow PosInf n = Inr PosInf"
| "b64_pow NegInf n = Inr (if odd n then NegInf else PosInf)"
| "b64_pow NaN n = Inr NaN"

definition binary64 :: platform where
  "binary64 =
     \<lparr>f_add = b64_add, f_sub = b64_sub, f_mul = b64_mul, f_div = b64_div,
      m_exp = b64_exp, f_pow = b64_pow\<rparr>"

section \<open>Rounding to a double\<close>

text \<open>
  A number with at most 53 significant bits and an exponent in range is a double and
  rounds to itself; a number of magnitude \<open>2 ^ 1024\<close> or more rounds to an infinity.
\<close>

lemma round_even_of_int: "round_even (of_int n) = n"
  by (simp add: round_even_def)

lemma floor_log2_less:
  assumes "0 < a" "a < 2 powi z"
  shows "\<lfloor>log 2 a\<rfloor> < z"
proof -
  have "log 2 a < of_int z"
    using assms by (simp add: log_less_iff powr_real_of_int')
  then show ?thesis
    by (simp add: floor_less_iff)
qed

lemma floor_log2_ge:
  assumes "0 < a" "2 powi z \<le> a"
  shows "z \<le> \<lfloor>log 2 a\<rfloor>"
proof -
  have "of_int z \<le> log 2 a"
    using assms by (simp add: le_log_iff powr_real_of_int')
  then show ?thesis
    by (simp add: le_floor_iff)
qed

lemma fl64_repr:
  assumes m: "\<bar>m\<bar> < 2 ^ 53" and k: "- 1074 \<le> k" "k \<le> 971"
  shows "fl64 (of_int m * 2 powi k) = Flt (of_int m * 2 powi k)"
proof (cases "m = 0")
  case True
  then show ?thesis
    by (simp add: fl64_def)
next
  case False
  define x :: real where "x = of_int m * 2 powi k"
  define e where "e = max \<lfloor>log 2 \<bar>x\<bar>\<rfloor> (- 1022)"
  define n where "n = nat (k - (e - 52))"
  have x0: "x \<noteq> 0"
    using False by (simp add: x_def)
  have absx: "\<bar>x\<bar> = of_int \<bar>m\<bar> * 2 powi k"
    by (simp add: x_def abs_mult)
  have "real_of_int \<bar>m\<bar> < real_of_int (2 ^ 53)"
    using m by (simp only: of_int_less_iff)
  then have m': "real_of_int \<bar>m\<bar> < 2 ^ 53"
    by simp
  have "\<bar>x\<bar> < 2 ^ 53 * 2 powi k"
    unfolding absx using m' by (intro mult_strict_right_mono) simp_all
  also have "\<dots> = 2 powi (53 + k)"
    by (simp add: power_int_add)
  finally have lt: "\<bar>x\<bar> < 2 powi (53 + k)" .
  then have "\<lfloor>log 2 \<bar>x\<bar>\<rfloor> < 53 + k"
    using x0 by (intro floor_log2_less) simp_all
  then have ek: "e - 52 \<le> k"
    using k by (simp add: e_def)
  then have kn: "k = (e - 52) + int n"
    by (simp add: n_def)
  have "x = of_int m * (2 powi (e - 52) * 2 powi int n)"
    unfolding x_def by (subst kn) (simp add: power_int_add)
  then have xq: "x = of_int (m * 2 ^ n) * 2 powi (e - 52)"
    by (simp add: power_int_of_nat)
  then have q: "x / 2 powi (e - 52) = of_int (m * 2 ^ n)"
    by simp
  have y: "of_int (round_even (x / 2 powi (e - 52))) * 2 powi (e - 52) = x"
    unfolding q round_even_of_int using xq by simp
  have "(2::real) powi (53 + k) \<le> 2 powi 1024"
    using k by (intro power_int_increasing) simp_all
  with lt have small: "\<bar>x\<bar> < 2 ^ 1024"
    by simp
  show ?thesis
    using x0 y small
    by (simp add: fl64_def Let_def e_def [symmetric] x_def [symmetric])
qed

lemma round_even_ge:
  assumes "of_int n \<le> t"
  shows "n \<le> round_even t"
proof -
  have "n \<le> \<lfloor>t\<rfloor>"
    using assms by (simp add: le_floor_iff)
  then show ?thesis
    by (simp add: round_even_def Let_def)
qed

lemma fl64_overflow:
  assumes "2 ^ 1024 \<le> x"
  shows "fl64 x = PosInf"
proof -
  define e where "e = max \<lfloor>log 2 \<bar>x\<bar>\<rfloor> (- 1022)"
  define y :: real where "y = of_int (round_even (x / 2 powi (e - 52))) * 2 powi (e - 52)"
  have pos: "0 < x"
    using assms by (rule less_le_trans [rotated]) simp
  have "2 powi 1024 \<le> \<bar>x\<bar>"
    using assms pos by simp
  then have "1024 \<le> \<lfloor>log 2 \<bar>x\<bar>\<rfloor>"
    using pos by (intro floor_log2_ge) simp_all
  then have e: "e = \<lfloor>log 2 \<bar>x\<bar>\<rfloor>" "1024 \<le> e"
    by (simp_all add: e_def)
  have "of_int e \<le> log 2 x"
    using e pos by simp
  then have ex: "2 powi e \<le> x"
    using pos by (simp add: le_log_iff powr_real_of_int')
  have split: "(2::real) ^ 52 * 2 powi (e - 52) = 2 powi e"
    using power_int_add [of "2::real" 52 "e - 52"] by simp
  have "(2::real) ^ 52 * 2 powi (e - 52) \<le> x"
    unfolding split by (rule ex)
  then have "of_int (2 ^ 52) \<le> x / 2 powi (e - 52)"
    by (simp add: pos_le_divide_eq)
  then have "2 ^ 52 \<le> round_even (x / 2 powi (e - 52))"
    by (rule round_even_ge)
  then have "real_of_int (2 ^ 52) \<le> of_int (round_even (x / 2 powi (e - 52)))"
    by (simp only: of_int_le_iff)
  then have "(2::real) ^ 52 \<le> of_int (round_even (x / 2 powi (e - 52)))"
    by simp
  then have "(2::real) ^ 52 * 2 powi (e - 52) \<le> y"
    unfolding y_def by (rule mult_right_mono) simp
  then have ey: "2 powi e \<le> y"
    unfolding split .
  have "(2::real) powi 1024 \<le> 2 powi e"
    using e by (intro power_int_increasing) simp_all
  then have "2 powi 1024 \<le> y"
    using ey by (rule order_trans)
  then have big: "2 ^ 1024 \<le> \<bar>y\<bar>"
    by simp
  have x0: "x \<noteq> 0"
    using pos by simp
  have "fl64 x = (if 2 ^ 1024 \<le> \<bar>y\<bar> then (if 0 < x then PosInf else NegInf) else Flt y)"
    unfolding fl64_def Let_def y_def e_def using x0 by (simp only: if_False)
  then show ?thesis
    using big pos by simp
qed

text \<open>A positive number below half the smallest subnormal rounds to zero.\<close>

lemma round_even_small:
  assumes "0 \<le> t" "t < 1 / 2"
  shows "round_even t = 0"
proof -
  have "\<lfloor>t\<rfloor> = 0"
    using assms by (intro floor_unique) simp_all
  then show ?thesis
    using assms by (simp add: round_even_def)
qed

lemma fl64_underflow:
  assumes pos: "0 < x" and small: "x < 2 powi (- 1075)"
  shows "fl64 x = Flt 0"
proof -
  have "\<lfloor>log 2 \<bar>x\<bar>\<rfloor> < - 1075"
    using pos small by (intro floor_log2_less) simp_all
  then have e: "max \<lfloor>log 2 \<bar>x\<bar>\<rfloor> (- 1022) = - 1022"
    by simp
  have half: "(2::real) powi (- 1075) = 2 powi (- 1074) * (1 / 2)"
    using power_int_add [of "2::real" "- 1074" "- 1"] by (simp add: power_int_minus)
  have "x < 2 powi (- 1074) * (1 / 2)"
    using small unfolding half .
  then have "x / 2 powi (- 1074) < 1 / 2"
    by (simp add: pos_divide_less_eq mult.commute)
  moreover have "0 \<le> x / 2 powi (- 1074)"
    using pos by simp
  ultimately have r: "round_even (x / 2 powi (- 1074)) = 0"
    by (intro round_even_small)
  have x0: "x \<noteq> 0"
    using pos by simp
  have "fl64 x = (let q = 2 powi (- 1022 - 52); y = of_int (round_even (x / q)) * q
      in if 2 ^ 1024 \<le> \<bar>y\<bar> then (if 0 < x then PosInf else NegInf) else Flt y)"
    unfolding fl64_def Let_def e using x0 by (simp only: if_False)
  then show ?thesis
    using r by (simp add: Let_def)
qed

section \<open>Unfolding a call\<close>

lemma upt2: "[0..<2] = [0, Suc 0]"
  by (simp add: upt_rec)

lemma upt3: "[0..<3] = [0, Suc 0, Suc (Suc 0)]"
  by (simp add: upt_rec)

lemmas option_tree_unfold =
  option_tree_def prob_p_def growth_e_def risk_free_rate_def discount_factor_def
  fill_stock_def fill_terminal_def induct_back_def backward_steps_def range_upto_def
  range_downto_def zero_tree_def stock_body_def terminal_body_def induct_body_def
  node_price_def node_value_def payoff_def py_pow_def py_truediv_def py_max0_def
  grid_get_def grid_set_def

lemmas binary64_unfold = binary64_def b64_sub_def checked_def signed_inf_def

section \<open>Loop rules\<close>

lemma for_loop_append:
  "for_loop (xs @ ys) body s =
     (case for_loop xs body s of Inl e \<Rightarrow> Inl e | Inr s' \<Rightarrow> for_loop ys body s')"
  by (induction xs arbitrary: s) (auto split: sum.splits)

lemma for_loop_upt:
  assumes "I 0 s"
    and "\<And>k t. k < n \<Longrightarrow> I k t \<Longrightarrow> \<exists>t'. body k t = Inr t' \<and> I (Suc k) t'"
  shows "\<exists>t. for_loop [0..<n] body s = Inr t \<and> I n t"
  using assms
proof (induction n)
  case 0
  then show ?case by simp
next
  case (Suc n)
  from Suc.IH [OF Suc.prems(1)] Suc.prems(2)
  obtain t where t: "for_loop [0..<n] body s = Inr t" "I n t"
    by (meson less_Suc_eq)
  from Suc.prems(2) [of n t] t(2)
  obtain t' where t': "body n t = Inr t'" "I (Suc n) t'"
    by auto
  show ?case
    using t t' by (simp add: for_loop_append)
qed

lemma for_loop_upt_returned:
  assumes "for_loop [0..<n] body s = Inr t" and "I 0 s"
    and "\<And>k a b. k < n \<Longrightarrow> I k a \<Longrightarrow> body k a = Inr b \<Longrightarrow> I (Suc k) b"
  shows "I n t"
  using assms
proof (induction n arbitrary: t)
  case 0
  then show ?case by simp
next
  case (Suc n)
  from Suc.prems(1)
  obtain a where a: "for_loop [0..<n] body s = Inr a" and b: "body n a = Inr t"
    by (auto simp: for_loop_append split: sum.splits)
  have "I n a"
    using a Suc.prems(2)
  proof (rule Suc.IH)
    fix k a b
    assume "k < n" "I k a" "body k a = Inr b"
    then show "I (Suc k) b"
      using Suc.prems(3) [of k a b] by simp
  qed
  then show ?case
    using Suc.prems(3) [of n a t] b by simp
qed

lemma for_loop_rev_upt:
  assumes "I n s"
    and "\<And>k t. k < n \<Longrightarrow> I (Suc k) t \<Longrightarrow> \<exists>t'. body k t = Inr t' \<and> I k t'"
  shows "\<exists>t. for_loop (rev [0..<n]) body s = Inr t \<and> I 0 t"
  using assms
proof (induction n arbitrary: s)
  case 0
  then show ?case by simp
next
  case (Suc n)
  from Suc.prems(2) [of n s] Suc.prems(1)
  obtain s' where s': "body n s = Inr s'" "I n s'"
    by auto
  have "\<exists>t. for_loop (rev [0..<n]) body s' = Inr t \<and> I 0 t"
    using s'(2) Suc.prems(2) by (intro Suc.IH) auto
  then show ?case
    using s'(1) by simp
qed

lemma grid_set_ok:
  "triangular n g \<Longrightarrow> i < n \<Longrightarrow> j \<le> i \<Longrightarrow> grid_set g i j v = Inr (g[i := (g ! i)[j := v]])"
  by (simp add: grid_set_def triangular_def)

lemma grid_get_ok:
  "triangular n g \<Longrightarrow> i < n \<Longrightarrow> j \<le> i \<Longrightarrow> grid_get g i j = Inr (g ! i ! j)"
  by (simp add: grid_get_def triangular_def)

lemma triangular_update:
  "triangular n g \<Longrightarrow> triangular n (g[i := (g ! i)[j := v]])"
  by (cases "i < length g") (auto simp: triangular_def nth_list_update)

lemma nth_grid_update:
  "triangular n g \<Longrightarrow> i < n \<Longrightarrow> j \<le> i \<Longrightarrow>
   g[i := (g ! i)[j := v]] ! i' ! j' = (if i' = i \<and> j' = j then v else g ! i' ! j')"
  by (auto simp: triangular_def nth_list_update)

lemma nat_int_Suc: "nat (int i + 1) = Suc i"
  by arith

lemma range_upto_Suc: "range_upto (int i + 1) = [0..<Suc i]"
  by (simp add: range_upto_def nat_int_Suc)

lemma triangular_zero_tree: "triangular (nat (time_steps + 1)) (zero_tree time_steps)"
  by (simp add: triangular_def zero_tree_def range_upto_def nat_int_Suc)

section \<open>The price loop\<close>

text \<open>
  When the price loop returns, every node it visited holds the value of the
  right-hand side of line 51 at that node, which therefore raised nothing.
\<close>

lemma stock_row_returned:
  assumes tri: "triangular n g" and i: "i < n"
    and prev: "\<forall>i'<i. \<forall>j\<le>i'. node_price P S u d i' j = Inr (g ! i' ! j)"
    and run: "for_loop [0..<Suc i] (stock_body P S u d i) g = Inr g'"
  shows "triangular n g' \<and> (\<forall>i'<Suc i. \<forall>j\<le>i'. node_price P S u d i' j = Inr (g' ! i' ! j))"
proof -
  define I where "I m t \<longleftrightarrow> triangular n t \<and>
      (\<forall>i'<i. \<forall>j\<le>i'. node_price P S u d i' j = Inr (t ! i' ! j)) \<and>
      (\<forall>j<m. node_price P S u d i j = Inr (t ! i ! j))" for m t
  have "I (Suc i) g'"
    using run
  proof (rule for_loop_upt_returned)
    show "I 0 g"
      using tri prev by (simp add: I_def)
  next
    fix k a b
    assume k: "k < Suc i" and inv: "I k a" and step: "stock_body P S u d i k a = Inr b"
    from k inv have a: "triangular n a" and kle: "k \<le> i"
      by (simp_all add: I_def)
    from step obtain v where v: "node_price P S u d i k = Inr v"
      and set: "grid_set a i k v = Inr b"
      by (auto simp: stock_body_def split: sum.splits)
    have b: "b = a[i := (a ! i)[k := v]]"
      using set grid_set_ok [OF a i kle, of v] by simp
    show "I (Suc k) b"
      using inv v unfolding I_def b
      by (auto simp: triangular_update nth_grid_update [OF a i kle] less_Suc_eq)
  qed
  then show ?thesis
    by (auto simp: I_def less_Suc_eq le_less)
qed

lemma fill_stock_returned:
  assumes tri: "triangular (nat (N + 1)) g"
    and run: "fill_stock P S u d N g = Inr st"
  shows "triangular (nat (N + 1)) st \<and>
           (\<forall>i<nat (N + 1). \<forall>j\<le>i. node_price P S u d i j = Inr (st ! i ! j))"
proof -
  define n where "n = nat (N + 1)"
  define I where "I k t \<longleftrightarrow> triangular n t \<and>
      (\<forall>i<k. \<forall>j\<le>i. node_price P S u d i j = Inr (t ! i ! j))" for k t
  have run': "for_loop [0..<n]
      (\<lambda>step. for_loop (range_upto (int step + 1)) (stock_body P S u d step)) g = Inr st"
    using run by (simp add: fill_stock_def range_upto_def n_def)
  have "I n st"
    using run'
  proof (rule for_loop_upt_returned)
    show "I 0 g"
      using tri by (simp add: I_def n_def)
  next
    fix k a b
    assume "k < n" and "I k a"
      and "for_loop (range_upto (int k + 1)) (stock_body P S u d k) a = Inr b"
    then show "I (Suc k) b"
      unfolding I_def range_upto_Suc using stock_row_returned [of n a k P S u d b] by blast
  qed
  then show ?thesis
    by (simp add: I_def n_def)
qed

text \<open>The price loop returns when the right-hand side of line 51 raises at no node.\<close>

lemma stock_row_returns:
  assumes tri: "triangular n g" and i: "i < n"
    and ok: "\<forall>j\<le>i. \<exists>v. node_price P S u d i j = Inr v"
  shows "\<exists>g'. for_loop [0..<Suc i] (stock_body P S u d i) g = Inr g' \<and> triangular n g'"
proof (rule for_loop_upt [where I = "\<lambda>_. triangular n"])
  show "triangular n g"
    by (rule tri)
next
  fix k t
  assume k: "k < Suc i" and t: "triangular n t"
  then have kle: "k \<le> i"
    by simp
  with ok obtain v where v: "node_price P S u d i k = Inr v"
    by blast
  have "stock_body P S u d i k t = Inr (t[i := (t ! i)[k := v]])"
    using grid_set_ok [OF t i kle, of v] v by (simp add: stock_body_def)
  then show "\<exists>t'. stock_body P S u d i k t = Inr t' \<and> triangular n t'"
    using t by (simp add: triangular_update)
qed

lemma fill_stock_returns:
  assumes tri: "triangular (nat (N + 1)) g"
    and ok: "\<forall>i<nat (N + 1). \<forall>j\<le>i. \<exists>v. node_price P S u d i j = Inr v"
  shows "\<exists>st. fill_stock P S u d N g = Inr st"
proof -
  have "\<exists>t. for_loop [0..<nat (N + 1)]
          (\<lambda>step. for_loop (range_upto (int step + 1)) (stock_body P S u d step)) g = Inr t \<and>
          triangular (nat (N + 1)) t"
  proof (rule for_loop_upt [where I = "\<lambda>_. triangular (nat (N + 1))"])
    show "triangular (nat (N + 1)) g"
      by (rule tri)
  next
    fix k t
    assume "k < nat (N + 1)" and "triangular (nat (N + 1)) t"
    then show "\<exists>t'. for_loop (range_upto (int k + 1)) (stock_body P S u d k) t = Inr t' \<and>
        triangular (nat (N + 1)) t'"
      unfolding range_upto_Suc using ok by (intro stock_row_returns) simp_all
  qed
  then show ?thesis
    by (auto simp: fill_stock_def range_upto_def)
qed

section \<open>The payoff loop and backward induction\<close>

text \<open>On triangular grids these two loops raise nothing.\<close>

lemma fill_terminal_ok:
  assumes st: "triangular (nat (N + 1)) st" and ot: "triangular (nat (N + 1)) g"
  shows "\<exists>ot. fill_terminal P K st N g = Inr ot \<and> triangular (nat (N + 1)) ot \<and>
           (\<forall>j<nat (N + 1). ot ! nat N ! j = payoff P K (st ! nat N ! j))"
proof -
  define n where "n = nat (N + 1)"
  define I where "I m t \<longleftrightarrow> triangular n t \<and>
      (\<forall>j<m. t ! nat N ! j = payoff P K (st ! nat N ! j))" for m t
  have "\<exists>t. for_loop [0..<n] (terminal_body P K st N) g = Inr t \<and> I n t"
  proof (rule for_loop_upt)
    show "I 0 g"
      using ot by (simp add: I_def n_def)
  next
    fix k t
    assume k: "k < n" and inv: "I k t"
    then have t: "triangular n t"
      by (simp add: I_def)
    from k have row: "nat N < n" and kle: "k \<le> nat N"
      by (simp_all add: n_def)
    let ?t' = "t[nat N := (t ! nat N)[k := payoff P K (st ! nat N ! k)]]"
    have "grid_get st (nat N) k = Inr (st ! nat N ! k)"
      using st row kle unfolding n_def [symmetric] by (rule grid_get_ok)
    moreover have "grid_set t (nat N) k (payoff P K (st ! nat N ! k)) = Inr ?t'"
      using t row kle by (rule grid_set_ok)
    ultimately have "terminal_body P K st N k t = Inr ?t'"
      by (simp add: terminal_body_def)
    moreover have "I (Suc k) ?t'"
      using inv unfolding I_def
      by (auto simp: triangular_update nth_grid_update [OF t row kle] less_Suc_eq)
    ultimately show "\<exists>t'. terminal_body P K st N k t = Inr t' \<and> I (Suc k) t'"
      by blast
  qed
  then show ?thesis
    by (simp add: fill_terminal_def range_upto_def I_def n_def)
qed

lemma induct_row:
  assumes tri: "triangular n g" and k: "Suc k < n"
  shows "\<exists>g'. for_loop [0..<Suc k] (induct_body P p df k) g = Inr g' \<and> triangular n g' \<and>
           (\<forall>i j. i \<noteq> k \<longrightarrow> g' ! i ! j = g ! i ! j) \<and>
           (\<forall>j\<le>k. g' ! k ! j = node_value P p df (g ! (k + 1) ! (j + 1)) (g ! (k + 1) ! j))"
proof -
  define I where "I m t \<longleftrightarrow> triangular n t \<and>
      (\<forall>i j. i \<noteq> k \<longrightarrow> t ! i ! j = g ! i ! j) \<and>
      (\<forall>j<m. t ! k ! j = node_value P p df (g ! (k + 1) ! (j + 1)) (g ! (k + 1) ! j))" for m t
  have "\<exists>t. for_loop [0..<Suc k] (induct_body P p df k) g = Inr t \<and> I (Suc k) t"
  proof (rule for_loop_upt)
    show "I 0 g"
      using tri by (simp add: I_def)
  next
    fix j t
    assume j: "j < Suc k" and inv: "I j t"
    then have t: "triangular n t" and jle: "j \<le> k"
      and same: "\<And>j'. t ! (k + 1) ! j' = g ! (k + 1) ! j'"
      by (simp_all add: I_def)
    have k': "k < n" and k1: "k + 1 < n" and j1: "j + 1 \<le> k + 1" and j0: "j \<le> k + 1"
      using k jle by simp_all
    let ?v = "node_value P p df (g ! (k + 1) ! (j + 1)) (g ! (k + 1) ! j)"
    let ?t' = "t[k := (t ! k)[j := ?v]]"
    have "grid_get t (k + 1) (j + 1) = Inr (g ! (k + 1) ! (j + 1))"
      using grid_get_ok [OF t k1 j1] same by simp
    moreover have "grid_get t (k + 1) j = Inr (g ! (k + 1) ! j)"
      using grid_get_ok [OF t k1 j0] same by simp
    moreover have "grid_set t k j ?v = Inr ?t'"
      using t k' jle by (rule grid_set_ok)
    ultimately have "induct_body P p df k j t = Inr ?t'"
      by (simp add: induct_body_def)
    moreover have "I (Suc j) ?t'"
      using inv unfolding I_def
      by (auto simp: triangular_update nth_grid_update [OF t k' jle] less_Suc_eq)
    ultimately show "\<exists>t'. induct_body P p df k j t = Inr t' \<and> I (Suc j) t'"
      by blast
  qed
  then show ?thesis
    by (auto simp: I_def less_Suc_eq le_less)
qed

lemma induct_back_ok:
  assumes tri: "triangular (nat (N + 1)) g"
  shows "\<exists>ot. induct_back P p df N g = Inr ot \<and> triangular (nat (N + 1)) ot \<and>
           ot ! nat N = g ! nat N \<and>
           (\<forall>step<nat N. \<forall>j\<le>step. ot ! step ! j =
              node_value P p df (ot ! (step + 1) ! (j + 1)) (ot ! (step + 1) ! j))"
proof -
  define n where "n = nat (N + 1)"
  define I where "I k t \<longleftrightarrow> triangular n t \<and> t ! nat N = g ! nat N \<and>
      (\<forall>step. k \<le> step \<and> step < nat N \<longrightarrow> (\<forall>j\<le>step. t ! step ! j =
         node_value P p df (t ! (step + 1) ! (j + 1)) (t ! (step + 1) ! j)))" for k t
  have "\<exists>t. for_loop (rev [0..<nat N])
          (\<lambda>step. for_loop (range_upto (int step + 1)) (induct_body P p df step)) g = Inr t \<and>
          I 0 t"
  proof (rule for_loop_rev_upt)
    show "I (nat N) g"
      using tri by (auto simp: I_def n_def)
  next
    fix k t
    assume k: "k < nat N" and inv: "I (Suc k) t"
    then have t: "triangular n t" and kn: "Suc k < n"
      by (simp_all add: I_def n_def)
    from induct_row [OF t kn, of P p df]
    obtain t' where run: "for_loop [0..<Suc k] (induct_body P p df k) t = Inr t'"
      and t': "triangular n t'"
      and frame: "\<forall>i j. i \<noteq> k \<longrightarrow> t' ! i ! j = t ! i ! j"
      and row: "\<forall>j\<le>k. t' ! k ! j =
              node_value P p df (t ! (k + 1) ! (j + 1)) (t ! (k + 1) ! j)"
      by blast
    have len: "length (t' ! i) = length (t ! i)" if "i < n" for i
      using t t' that by (simp add: triangular_def)
    have rows: "t' ! i = t ! i" if "i \<noteq> k" "i < n" for i
      using that frame len by (simp add: list_eq_iff_nth_eq)
    have "I k t'"
      unfolding I_def
    proof (intro conjI allI impI)
      show "triangular n t'" by (rule t')
      show "t' ! nat N = g ! nat N"
        using inv k rows [of "nat N"] by (simp add: I_def n_def)
    next
      fix step j
      assume step: "k \<le> step \<and> step < nat N" and j: "j \<le> step"
      show "t' ! step ! j =
         node_value P p df (t' ! (step + 1) ! (j + 1)) (t' ! (step + 1) ! j)"
      proof (cases "step = k")
        case True
        then show ?thesis
          using row j frame by simp
      next
        case False
        with step have "Suc k \<le> step" "step + 1 \<noteq> k"
          by simp_all
        then show ?thesis
          using inv step j False frame by (simp add: I_def)
      qed
    qed
    then show "\<exists>t'. for_loop (range_upto (int k + 1)) (induct_body P p df k) t = Inr t' \<and> I k t'"
      using run by (simp add: range_upto_Suc)
  qed
  then show ?thesis
    by (simp add: induct_back_def backward_steps_def range_downto_def I_def n_def)
qed

section \<open>What a call of option\_tree does\<close>

text \<open>
  With a negative step count both grids are empty and every loop is: the call fails
  on line 63, where the root is read, unless lines 42 to 44 failed before.
\<close>

lemma option_tree_negative_steps:
  assumes "discount_factor P r dt = Inr df" and "growth_e P r dt = Inr e"
    and "prob_p P e u d = Inr p" and "N < 0"
  shows "option_tree P S K u d r N dt = Inl IndexError"
  using assms
  by (simp add: option_tree_def fill_stock_def fill_terminal_def induct_back_def
      backward_steps_def range_upto_def range_downto_def zero_tree_def grid_get_def)

text \<open>
  When a call returns, lines 42 to 44 raised nothing, the step count is not negative,
  and the two grids hold what the loops wrote: at every node the value of line 51, on
  the last row the payoffs, and above it the values of lines 60 and 61.
\<close>

lemma option_tree_returned:
  assumes run: "option_tree P S K u d r N dt = Inr res"
  shows "\<exists>df e p. discount_factor P r dt = Inr df \<and> growth_e P r dt = Inr e \<and>
           prob_p P e u d = Inr p \<and> 0 \<le> N \<and>
           triangular (nat N + 1) (stock_tree res) \<and>
           triangular (nat N + 1) (option_grid res) \<and>
           (\<forall>i\<le>nat N. \<forall>j\<le>i. node_price P S u d i j = Inr (stock_tree res ! i ! j)) \<and>
           (\<forall>j\<le>nat N. option_grid res ! nat N ! j = payoff P K (stock_tree res ! nat N ! j)) \<and>
           (\<forall>step<nat N. \<forall>j\<le>step. option_grid res ! step ! j =
              node_value P p df (option_grid res ! (step + 1) ! (j + 1))
                (option_grid res ! (step + 1) ! j)) \<and>
           printed_root res = option_grid res ! 0 ! 0"
proof -
  let ?n = "nat (N + 1)"
  from run obtain df e p st ot1 ot rv
    where df: "discount_factor P r dt = Inr df"
      and e: "growth_e P r dt = Inr e"
      and p: "prob_p P e u d = Inr p"
      and st: "fill_stock P S u d N (zero_tree N) = Inr st"
      and ot1: "fill_terminal P K st N (zero_tree N) = Inr ot1"
      and ot: "induct_back P p df N ot1 = Inr ot"
      and rv: "grid_get ot 0 0 = Inr rv"
      and res: "res = \<lparr>printed_root = rv, stock_tree = st, option_grid = ot\<rparr>"
    by (auto simp: option_tree_def split: sum.splits)
  have N: "0 \<le> N"
    using run option_tree_negative_steps [OF df e p, of N S K] by (cases "N < 0") simp_all
  then have n: "?n = nat N + 1"
    by simp
  from fill_stock_returned [OF triangular_zero_tree st]
  have st_tri: "triangular ?n st"
    and st_val: "\<forall>i<?n. \<forall>j\<le>i. node_price P S u d i j = Inr (st ! i ! j)"
    by simp_all
  from fill_terminal_ok [OF st_tri triangular_zero_tree, of P K] ot1
  have ot1_tri: "triangular ?n ot1"
    and ot1_val: "\<forall>j<?n. ot1 ! nat N ! j = payoff P K (st ! nat N ! j)"
    by auto
  from induct_back_ok [OF ot1_tri, of P p df] ot
  have ot_tri: "triangular ?n ot"
    and ot_last: "ot ! nat N = ot1 ! nat N"
    and ot_val: "\<forall>step<nat N. \<forall>j\<le>step. ot ! step ! j =
              node_value P p df (ot ! (step + 1) ! (j + 1)) (ot ! (step + 1) ! j)"
    by auto
  have "grid_get ot 0 0 = Inr (ot ! 0 ! 0)"
    using ot_tri n by (intro grid_get_ok [of ?n]) simp_all
  with rv have root: "rv = ot ! 0 ! 0"
    by simp
  have "\<forall>i\<le>nat N. \<forall>j\<le>i. node_price P S u d i j = Inr (st ! i ! j)"
    using st_val n by simp
  moreover have "\<forall>j\<le>nat N. ot ! nat N ! j = payoff P K (st ! nat N ! j)"
    using ot1_val ot_last n by simp
  ultimately show ?thesis
    using df e p N st_tri ot_tri ot_val n root by (simp add: res)
qed

text \<open>
  A call returns when lines 42 to 44 raise nothing, the step count is not negative and
  line 51 raises at no node.
\<close>

lemma option_tree_returns:
  assumes df: "discount_factor P r dt = Inr df" and e: "growth_e P r dt = Inr e"
    and p: "prob_p P e u d = Inr p" and N: "0 \<le> N"
    and ok: "\<forall>i\<le>nat N. \<forall>j\<le>i. \<exists>v. node_price P S u d i j = Inr v"
  shows "\<exists>res. option_tree P S K u d r N dt = Inr res"
proof -
  let ?n = "nat (N + 1)"
  have n: "?n = nat N + 1"
    using N by simp
  have "\<forall>i<?n. \<forall>j\<le>i. \<exists>v. node_price P S u d i j = Inr v"
    using ok n by simp
  from fill_stock_returns [OF triangular_zero_tree this]
  obtain st where st: "fill_stock P S u d N (zero_tree N) = Inr st"
    by blast
  from fill_stock_returned [OF triangular_zero_tree st]
  have st_tri: "triangular ?n st"
    by simp
  from fill_terminal_ok [OF st_tri triangular_zero_tree, of P K]
  obtain ot1 where ot1: "fill_terminal P K st N (zero_tree N) = Inr ot1"
    and ot1_tri: "triangular ?n ot1"
    by blast
  from induct_back_ok [OF ot1_tri, of P p df]
  obtain ot where ot: "induct_back P p df N ot1 = Inr ot" and ot_tri: "triangular ?n ot"
    by blast
  have root: "grid_get ot 0 0 = Inr (ot ! 0 ! 0)"
    using ot_tri n by (intro grid_get_ok [of ?n]) simp_all
  show ?thesis
    by (simp add: option_tree_def df e p st ot1 ot root)
qed


section \<open>Evaluating a call on doubles\<close>

lemma fl64_numeral:
  "(numeral n :: int) < 2 ^ 53 \<Longrightarrow> fl64 (numeral n) = Flt (numeral n)"
  using fl64_repr [of "numeral n" 0] by simp

lemma fl64_neg_numeral:
  "(numeral n :: int) < 2 ^ 53 \<Longrightarrow> fl64 (- numeral n) = Flt (- numeral n)"
  using fl64_repr [of "- numeral n" 0] by simp

lemma fl64_halves:
  "(numeral n :: int) < 2 ^ 53 \<Longrightarrow> fl64 (numeral n / 2) = Flt (numeral n / 2)"
  "(numeral n :: int) < 2 ^ 53 \<Longrightarrow> fl64 (numeral n / 4) = Flt (numeral n / 4)"
  "fl64 (1 / 2) = Flt (1 / 2)" "fl64 (1 / 4) = Flt (1 / 4)"
  using fl64_repr [of "numeral n" "- 1"] fl64_repr [of "numeral n" "- 2"]
    fl64_repr [of 1 "- 1"] fl64_repr [of 1 "- 2"]
  by (simp_all add: power_int_minus)

lemma fl64_zero_one: "fl64 0 = Flt 0" "fl64 1 = Flt 1" "fl64 (- 1) = Flt (- 1)"
  using fl64_repr [of 0 0] fl64_repr [of 1 0] fl64_repr [of "- 1" 0] by simp_all

lemmas fl64_eval = fl64_zero_one fl64_numeral fl64_neg_numeral fl64_halves

lemma binary64_run1:
  "option_tree binary64 (Flt 40) (Flt 40) (Flt (3 / 2)) (Flt (1 / 2)) (Flt 0) 1 (Flt 1) =
     Inr \<lparr>printed_root = Flt 10, stock_tree = [[Flt 40], [Flt 20, Flt 60]],
          option_grid = [[Flt 10], [Flt 0, Flt 20]]\<rparr>"
  by (simp add: option_tree_unfold binary64_unfold upt2 fl64_eval)

lemma binary64_run2:
  "option_tree binary64 (Flt 40) (Flt 40) (Flt (3 / 2)) (Flt (1 / 2)) (Flt 0) 2 (Flt 1) =
     Inr \<lparr>printed_root = Flt (25 / 2),
          stock_tree = [[Flt 40], [Flt 20, Flt 60], [Flt 10, Flt 30, Flt 90]],
          option_grid = [[Flt (25 / 2)], [Flt 0, Flt 25], [Flt 0, Flt 0, Flt 50]]\<rparr>"
  by (simp add: option_tree_unfold binary64_unfold upt2 upt3 fl64_eval)


text \<open>
  \<open>exp 2000\<close> is beyond the largest double and \<open>exp (- 2000)\<close> is below half the
  smallest one.
\<close>

lemma exp_2000_big: "2 ^ 2000 \<le> exp (2000 :: real)"
proof -
  have "(2::real) \<le> exp 1"
    using exp_ge_add_one_self [of "1::real"] by simp
  then have "(2::real) ^ 2000 \<le> exp 1 ^ 2000"
    by (intro power_mono) simp_all
  also have "\<dots> = exp (of_nat 2000 * 1)"
    by (rule exp_of_nat_mult [symmetric])
  finally show ?thesis
    by simp
qed

lemma fl64_exp_2000: "fl64 (exp 2000) = PosInf"
proof (rule fl64_overflow)
  have "(2::real) ^ 1024 \<le> 2 ^ 2000"
    by (intro power_increasing) simp_all
  then show "2 ^ 1024 \<le> exp (2000 :: real)"
    using exp_2000_big by (rule order_trans)
qed

lemma fl64_exp_minus_2000: "fl64 (exp (- 2000)) = Flt 0"
proof (rule fl64_underflow)
  show "0 < exp (- 2000 :: real)"
    by simp
  have "exp (- 2000 :: real) = inverse (exp 2000)"
    by (rule exp_minus)
  also have "\<dots> \<le> inverse (2 ^ 2000)"
    using exp_2000_big by (intro le_imp_inverse_le) simp_all
  also have "\<dots> < 2 powi (- 1075)"
    by (simp add: power_int_minus)
  finally show "exp (- 2000 :: real) < 2 powi (- 1075)" .
qed


lemma binary64_zero_rate:
  "discount_factor binary64 (Flt 0) (Flt 1) = Inr (Flt 1)"
  "growth_e binary64 (Flt 0) (Flt 1) = Inr (Flt 1)"
  by (simp_all add: discount_factor_def growth_e_def risk_free_rate_def binary64_unfold fl64_eval)

text \<open>What \<^verbatim>\<open>max(0, x)\<close> gives is never below zero and never NaN.\<close>

lemma py_max0_ge: "py_ge (py_max0 x) (Flt 0)"
  by (cases x) (simp_all add: py_max0_def)

section \<open>Monotone branches of the closed form\<close>




section \<open>The claims\<close>

text \<open>
  C1. On every input on which the call returns (so \<open>DF\<close>, \<open>e\<close> and \<open>p\<close> were computed
  and raised nothing, which needs \<open>u - d\<close> not to be zero), the value grid it returns
  satisfies the backward-induction recurrence: for every step below \<open>N\<close> and every
  \<open>j \<le> step\<close>,
  \<open>value(step, j) = max(0, DF \<cdot> (p \<cdot> value(step + 1, j + 1) + (1 - p) \<cdot> value(step + 1, j)))\<close>
  with \<open>DF = exp(- r \<cdot> \<Delta>t)\<close>, \<open>p = (exp(r \<cdot> \<Delta>t) - d) / (u - d)\<close> and
  \<open>r = risk_free_pct / 100\<close>, every operation being the float operation of the
  platform; the root price that is printed is \<open>value(0, 0)\<close>. With \<open>N \<ge> 1\<close> the
  recurrence covers the steps from \<open>N - 1\<close> down to 0.
\<close>

theorem backward_induction_recurrence:
  assumes "option_tree P stock_price ex_price uptick downtick risk_free_pct time_steps
             delta_time_step = Inr res"
  shows "\<exists>df e p.
           m_exp P (f_mul P (py_neg (f_div P risk_free_pct (Flt 100))) delta_time_step) = Inr df \<and>
           m_exp P (f_mul P (f_div P risk_free_pct (Flt 100)) delta_time_step) = Inr e \<and>
           py_truediv P (f_sub P e downtick) (f_sub P uptick downtick) = Inr p \<and>
           (\<forall>step<nat time_steps. \<forall>j\<le>step. option_grid res ! step ! j =
              py_max0 (f_mul P df
                (f_add P (f_mul P p (option_grid res ! (step + 1) ! (j + 1)))
                   (f_mul P (f_sub P (Flt 1) p) (option_grid res ! (step + 1) ! j))))) \<and>
           printed_root res = option_grid res ! 0 ! 0"
proof -
  from option_tree_returned [OF assms]
  obtain df e p where "discount_factor P risk_free_pct delta_time_step = Inr df"
    and "growth_e P risk_free_pct delta_time_step = Inr e"
    and "prob_p P e uptick downtick = Inr p"
    and "\<forall>step<nat time_steps. \<forall>j\<le>step. option_grid res ! step ! j =
              node_value P p df (option_grid res ! (step + 1) ! (j + 1))
                (option_grid res ! (step + 1) ! j)"
    and "printed_root res = option_grid res ! 0 ! 0"
    by blast
  then show ?thesis
    unfolding discount_factor_def growth_e_def prob_p_def risk_free_rate_def node_value_def
      Let_def
    by blast
qed

theorem backward_induction_recurrence_witness:
  "option_tree binary64 (Flt 40) (Flt 40) (Flt (3 / 2)) (Flt (1 / 2)) (Flt 0) 2 (Flt 1) =
     Inr \<lparr>printed_root = Flt (25 / 2),
          stock_tree = [[Flt 40], [Flt 20, Flt 60], [Flt 10, Flt 30, Flt 90]],
          option_grid = [[Flt (25 / 2)], [Flt 0, Flt 25], [Flt 0, Flt 0, Flt 50]]\<rparr> \<and>
   Flt 25 = py_max0 (f_mul binary64 (Flt 1)
      (f_add binary64 (f_mul binary64 (Flt (1 / 2)) (Flt 50))
         (f_mul binary64 (f_sub binary64 (Flt 1) (Flt (1 / 2))) (Flt 0)))) \<and>
   Flt (25 / 2) = py_max0 (f_mul binary64 (Flt 1)
      (f_add binary64 (f_mul binary64 (Flt (1 / 2)) (Flt 25))
         (f_mul binary64 (f_sub binary64 (Flt 1) (Flt (1 / 2))) (Flt 0))))"
proof -
  let ?res = "\<lparr>printed_root = Flt (25 / 2),
          stock_tree = [[Flt 40], [Flt 20, Flt 60], [Flt 10, Flt 30, Flt 90]],
          option_grid = [[Flt (25 / 2)], [Flt 0, Flt 25], [Flt 0, Flt 0, Flt 50]]\<rparr>"
  have run: "option_tree binary64 (Flt 40) (Flt 40) (Flt (3 / 2)) (Flt (1 / 2)) (Flt 0) 2 (Flt 1) =
      Inr ?res"
    by (rule binary64_run2)
  from backward_induction_recurrence [OF run]
  obtain df e p
    where df: "m_exp binary64 (f_mul binary64 (py_neg (f_div binary64 (Flt 0) (Flt 100))) (Flt 1)) =
        Inr df"
      and e: "m_exp binary64 (f_mul binary64 (f_div binary64 (Flt 0) (Flt 100)) (Flt 1)) = Inr e"
      and p: "py_truediv binary64 (f_sub binary64 e (Flt (1 / 2)))
          (f_sub binary64 (Flt (3 / 2)) (Flt (1 / 2))) = Inr p"
      and rec: "\<forall>step<nat 2. \<forall>j\<le>step. option_grid ?res ! step ! j =
              py_max0 (f_mul binary64 df
                (f_add binary64 (f_mul binary64 p (option_grid ?res ! (step + 1) ! (j + 1)))
                   (f_mul binary64 (f_sub binary64 (Flt 1) p) (option_grid ?res ! (step + 1) ! j))))"
    by blast
  from df have df': "df = Flt 1"
    by (simp add: binary64_unfold fl64_eval)
  from e have e': "e = Flt 1"
    by (simp add: binary64_unfold fl64_eval)
  from p have p': "p = Flt (1 / 2)"
    unfolding e' by (simp add: binary64_unfold py_truediv_def fl64_eval)
  from rec [rule_format, of 1 1] rec [rule_format, of 0 0] run show ?thesis
    unfolding df' p' by simp
qed

text \<open>
  C2. On every input on which the call returns, the stock-price grid it returns is
  triangular: it has exactly \<open>N + 1\<close> rows, row \<open>step\<close> has exactly \<open>step + 1\<close> entries,
  and entry \<open>(step, j)\<close> is the closed form \<open>S0 \<cdot> u ** j \<cdot> d ** (step - j)\<close> in the float
  operations of the platform: two powers of the arguments and two products, computed
  for that node from the arguments alone and not from a neighbouring node.
\<close>

theorem stock_tree_closed_form:
  assumes "option_tree P stock_price ex_price uptick downtick risk_free_pct time_steps
             delta_time_step = Inr res"
  shows "length (stock_tree res) = nat time_steps + 1 \<and>
           (\<forall>step\<le>nat time_steps.
              length (stock_tree res ! step) = step + 1 \<and>
              (\<forall>j\<le>step. \<exists>up down.
                 py_pow P uptick j = Inr up \<and> py_pow P downtick (step - j) = Inr down \<and>
                 stock_tree res ! step ! j = f_mul P (f_mul P stock_price up) down))"
proof -
  from option_tree_returned [OF assms]
  have tri: "triangular (nat time_steps + 1) (stock_tree res)"
    and val: "\<forall>i\<le>nat time_steps. \<forall>j\<le>i.
        node_price P stock_price uptick downtick i j = Inr (stock_tree res ! i ! j)"
    by blast+
  have "\<exists>up down. py_pow P uptick j = Inr up \<and> py_pow P downtick (step - j) = Inr down \<and>
      stock_tree res ! step ! j = f_mul P (f_mul P stock_price up) down"
    if "step \<le> nat time_steps" "j \<le> step" for step j
    using val [rule_format, OF that] by (auto simp: node_price_def split: sum.splits)
  then show ?thesis
    using tri by (simp add: triangular_def)
qed

theorem stock_tree_closed_form_witness:
  "option_tree binary64 (Flt 40) (Flt 40) (Flt (3 / 2)) (Flt (1 / 2)) (Flt 0) 2 (Flt 1) =
     Inr \<lparr>printed_root = Flt (25 / 2),
          stock_tree = [[Flt 40], [Flt 20, Flt 60], [Flt 10, Flt 30, Flt 90]],
          option_grid = [[Flt (25 / 2)], [Flt 0, Flt 25], [Flt 0, Flt 0, Flt 50]]\<rparr> \<and>
   length [[Flt 40], [Flt 20, Flt 60], [Flt 10, Flt 30, Flt 90]] = nat 2 + 1 \<and>
   length ([[Flt 40], [Flt 20, Flt 60], [Flt 10, Flt 30, Flt 90]] ! 2) = 2 + 1 \<and>
   py_pow binary64 (Flt (3 / 2)) 1 = Inr (Flt (3 / 2)) \<and>
   py_pow binary64 (Flt (1 / 2)) (2 - 1) = Inr (Flt (1 / 2)) \<and>
   Flt 30 = f_mul binary64 (f_mul binary64 (Flt 40) (Flt (3 / 2))) (Flt (1 / 2))"
proof -
  let ?st = "[[Flt 40], [Flt 20, Flt 60], [Flt 10, Flt 30, Flt 90]]"
  let ?res = "\<lparr>printed_root = Flt (25 / 2), stock_tree = ?st,
          option_grid = [[Flt (25 / 2)], [Flt 0, Flt 25], [Flt 0, Flt 0, Flt 50]]\<rparr>"
  have run: "option_tree binary64 (Flt 40) (Flt 40) (Flt (3 / 2)) (Flt (1 / 2)) (Flt 0) 2 (Flt 1) =
      Inr ?res"
    by (rule binary64_run2)
  from stock_tree_closed_form [OF run]
  have len: "length (stock_tree ?res) = nat 2 + 1"
    and rows: "\<forall>step\<le>nat 2. length (stock_tree ?res ! step) = step + 1 \<and>
              (\<forall>j\<le>step. \<exists>up down.
                 py_pow binary64 (Flt (3 / 2)) j = Inr up \<and>
                 py_pow binary64 (Flt (1 / 2)) (step - j) = Inr down \<and>
                 stock_tree ?res ! step ! j = f_mul binary64 (f_mul binary64 (Flt 40) up) down)"
    by blast+
  from rows [rule_format, of 2] have len2: "length (?st ! 2) = 2 + 1"
    and "\<forall>j\<le>2. \<exists>up down.
                 py_pow binary64 (Flt (3 / 2)) j = Inr up \<and>
                 py_pow binary64 (Flt (1 / 2)) (2 - j) = Inr down \<and>
                 stock_tree ?res ! 2 ! j = f_mul binary64 (f_mul binary64 (Flt 40) up) down"
    by simp_all
  from this(2) [rule_format, of 1]
  obtain up down where up: "py_pow binary64 (Flt (3 / 2)) 1 = Inr up"
    and down: "py_pow binary64 (Flt (1 / 2)) (2 - 1) = Inr down"
    and node: "stock_tree ?res ! 2 ! 1 = f_mul binary64 (f_mul binary64 (Flt 40) up) down"
    by auto
  from up have up': "up = Flt (3 / 2)"
    by (simp add: py_pow_def binary64_unfold fl64_eval)
  from down have down': "down = Flt (1 / 2)"
    by (simp add: py_pow_def binary64_unfold fl64_eval)
  from node have "Flt 30 = f_mul binary64 (f_mul binary64 (Flt 40) (Flt (3 / 2))) (Flt (1 / 2))"
    unfolding up' down' by simp
  with run len len2 up down show ?thesis
    unfolding up' down' by simp
qed

text \<open>
  C3. On every input on which the call returns, the terminal row of the value grid is
  the clamped call payoff of the terminal price row:
  \<open>ValueGrid(N, j) = max(0, PriceGrid(N, j) - K)\<close> for every \<open>j\<close> from 0 to \<open>N\<close>.
\<close>

theorem terminal_row_call_payoff:
  assumes "option_tree P stock_price ex_price uptick downtick risk_free_pct time_steps
             delta_time_step = Inr res"
  shows "\<forall>j\<le>nat time_steps. option_grid res ! nat time_steps ! j =
           py_max0 (f_sub P (stock_tree res ! nat time_steps ! j) ex_price)"
  using option_tree_returned [OF assms] unfolding payoff_def by blast

theorem terminal_row_call_payoff_witness:
  "option_tree binary64 (Flt 40) (Flt 40) (Flt (3 / 2)) (Flt (1 / 2)) (Flt 0) 2 (Flt 1) =
     Inr \<lparr>printed_root = Flt (25 / 2),
          stock_tree = [[Flt 40], [Flt 20, Flt 60], [Flt 10, Flt 30, Flt 90]],
          option_grid = [[Flt (25 / 2)], [Flt 0, Flt 25], [Flt 0, Flt 0, Flt 50]]\<rparr> \<and>
   Flt 0 = py_max0 (f_sub binary64 (Flt 10) (Flt 40)) \<and>
   Flt 0 = py_max0 (f_sub binary64 (Flt 30) (Flt 40)) \<and>
   Flt 50 = py_max0 (f_sub binary64 (Flt 90) (Flt 40))"
proof -
  let ?res = "\<lparr>printed_root = Flt (25 / 2),
          stock_tree = [[Flt 40], [Flt 20, Flt 60], [Flt 10, Flt 30, Flt 90]],
          option_grid = [[Flt (25 / 2)], [Flt 0, Flt 25], [Flt 0, Flt 0, Flt 50]]\<rparr>"
  have run: "option_tree binary64 (Flt 40) (Flt 40) (Flt (3 / 2)) (Flt (1 / 2)) (Flt 0) 2 (Flt 1) =
      Inr ?res"
    by (rule binary64_run2)
  note row = terminal_row_call_payoff [OF run, rule_format]
  from row [of 0] row [of 1] row [of 2] run show ?thesis
    by simp
qed




text \<open>
  C5, as the claim states it: a probability \<open>p\<close> outside \<open>[0, 1]\<close> fails with an
  ArbitrageError before any grid value is computed. The body raises no such error and
  never compares \<open>p\<close> with anything. On doubles, with \<open>u = 0.5\<close>, \<open>d = 0.25\<close> and a zero
  rate, \<open>p\<close> is 3 and the call returns both grids.
\<close>

theorem arbitrage_error_counterexample:
  "prob_p binary64 (Flt 1) (Flt (1 / 2)) (Flt (1 / 4)) = Inr (Flt 3) \<and>
   \<not> py_ge (Flt 1) (Flt 3) \<and>
   option_tree binary64 (Flt 40) (Flt 15) (Flt (1 / 2)) (Flt (1 / 4)) (Flt 0) 1 (Flt 1) =
     Inr \<lparr>printed_root = Flt 15, stock_tree = [[Flt 40], [Flt 10, Flt 20]],
          option_grid = [[Flt 15], [Flt 0, Flt 5]]\<rparr>"
  by (simp add: option_tree_unfold binary64_unfold upt2 fl64_eval)

text \<open>
  C5, amended. For every input whose \<open>p\<close> is computed (lines 42 to 44 raise nothing)
  and lies outside \<open>[0, 1]\<close>, the pricer raises no ArbitrageError: with \<open>N \<ge> 0\<close>, and
  unless a power of line 51 raises, it returns both grids, each of \<open>N + 1\<close> rows, the
  values above the last row computed with that \<open>p\<close>; with \<open>N < 0\<close> it fails with the
  IndexError of line 63, as for any other \<open>p\<close>.
\<close>

theorem no_arbitrage_check:
  assumes df: "discount_factor P risk_free_pct delta_time_step = Inr df"
    and e: "growth_e P risk_free_pct delta_time_step = Inr e"
    and p: "prob_p P e uptick downtick = Inr p"
    and out: "\<not> (py_ge p (Flt 0) \<and> py_ge (Flt 1) p)"
  shows "(0 \<le> time_steps \<and>
          (\<forall>step\<le>nat time_steps. \<forall>j\<le>step. \<exists>v.
             node_price P stock_price uptick downtick step j = Inr v) \<longrightarrow>
            (\<exists>res. option_tree P stock_price ex_price uptick downtick risk_free_pct time_steps
                      delta_time_step = Inr res \<and>
                   length (stock_tree res) = nat time_steps + 1 \<and>
                   length (option_grid res) = nat time_steps + 1 \<and>
                   (\<forall>step<nat time_steps. \<forall>j\<le>step. option_grid res ! step ! j =
                      py_max0 (f_mul P df
                        (f_add P (f_mul P p (option_grid res ! (step + 1) ! (j + 1)))
                           (f_mul P (f_sub P (Flt 1) p) (option_grid res ! (step + 1) ! j))))))) \<and>
         (time_steps < 0 \<longrightarrow>
            option_tree P stock_price ex_price uptick downtick risk_free_pct time_steps
              delta_time_step = Inl IndexError)"
proof (intro conjI impI)
  assume h: "0 \<le> time_steps \<and>
      (\<forall>step\<le>nat time_steps. \<forall>j\<le>step. \<exists>v.
         node_price P stock_price uptick downtick step j = Inr v)"
  then have N: "0 \<le> time_steps"
    and ok: "\<forall>step\<le>nat time_steps. \<forall>j\<le>step. \<exists>v.
         node_price P stock_price uptick downtick step j = Inr v"
    by simp_all
  from option_tree_returns [OF df e p N ok, of ex_price]
  obtain res where run: "option_tree P stock_price ex_price uptick downtick risk_free_pct
      time_steps delta_time_step = Inr res"
    by blast
  from option_tree_returned [OF run] df e p
  have "triangular (nat time_steps + 1) (stock_tree res)"
    and "triangular (nat time_steps + 1) (option_grid res)"
    and "\<forall>step<nat time_steps. \<forall>j\<le>step. option_grid res ! step ! j =
              node_value P p df (option_grid res ! (step + 1) ! (j + 1))
                (option_grid res ! (step + 1) ! j)"
    by auto
  with run show "\<exists>res. option_tree P stock_price ex_price uptick downtick risk_free_pct
      time_steps delta_time_step = Inr res \<and>
      length (stock_tree res) = nat time_steps + 1 \<and>
      length (option_grid res) = nat time_steps + 1 \<and>
      (\<forall>step<nat time_steps. \<forall>j\<le>step. option_grid res ! step ! j =
         py_max0 (f_mul P df
           (f_add P (f_mul P p (option_grid res ! (step + 1) ! (j + 1)))
              (f_mul P (f_sub P (Flt 1) p) (option_grid res ! (step + 1) ! j)))))"
    by (auto simp: triangular_def node_value_def)
next
  assume "time_steps < 0"
  with df e p show "option_tree P stock_price ex_price uptick downtick risk_free_pct time_steps
      delta_time_step = Inl IndexError"
    by (rule option_tree_negative_steps)
qed

theorem no_arbitrage_check_witness:
  "discount_factor binary64 (Flt 0) (Flt 1) = Inr (Flt 1) \<and>
   growth_e binary64 (Flt 0) (Flt 1) = Inr (Flt 1) \<and>
   prob_p binary64 (Flt 1) (Flt (1 / 2)) (Flt (1 / 4)) = Inr (Flt 3) \<and>
   \<not> (py_ge (Flt 3) (Flt 0) \<and> py_ge (Flt 1) (Flt 3)) \<and> (0 :: int) \<le> 1 \<and>
   node_price binary64 (Flt 40) (Flt (1 / 2)) (Flt (1 / 4)) 1 0 = Inr (Flt 10) \<and>
   (\<exists>res. option_tree binary64 (Flt 40) (Flt 15) (Flt (1 / 2)) (Flt (1 / 4)) (Flt 0) 1 (Flt 1) =
        Inr res \<and>
      length (stock_tree res) = nat 1 + 1 \<and> length (option_grid res) = nat 1 + 1 \<and>
      option_grid res ! 0 ! 0 =
        py_max0 (f_mul binary64 (Flt 1)
          (f_add binary64 (f_mul binary64 (Flt 3) (option_grid res ! 1 ! 1))
             (f_mul binary64 (f_sub binary64 (Flt 1) (Flt 3)) (option_grid res ! 1 ! 0))))) \<and>
   (- 1 :: int) < 0 \<and>
   option_tree binary64 (Flt 40) (Flt 15) (Flt (1 / 2)) (Flt (1 / 4)) (Flt 0) (- 1) (Flt 1) =
     Inl IndexError"
proof -
  note df = binary64_zero_rate(1) and e = binary64_zero_rate(2)
  have p: "prob_p binary64 (Flt 1) (Flt (1 / 2)) (Flt (1 / 4)) = Inr (Flt 3)"
    by (simp add: prob_p_def py_truediv_def binary64_unfold fl64_eval)
  have out: "\<not> (py_ge (Flt 3) (Flt 0) \<and> py_ge (Flt 1) (Flt 3))"
    by simp
  have node: "\<exists>v. node_price binary64 (Flt 40) (Flt (1 / 2)) (Flt (1 / 4)) step j = Inr v"
    if "step \<le> 1" "j \<le> step" for step j
  proof -
    from that have "step = 0 \<and> j = 0 \<or> step = 1 \<and> j = 0 \<or> step = 1 \<and> j = 1"
      by arith
    then show ?thesis
      by (auto simp: node_price_def py_pow_def binary64_unfold fl64_eval)
  qed
  then have ok: "\<forall>step\<le>nat 1. \<forall>j\<le>step. \<exists>v.
      node_price binary64 (Flt 40) (Flt (1 / 2)) (Flt (1 / 4)) step j = Inr v"
    by simp
  have n10: "node_price binary64 (Flt 40) (Flt (1 / 2)) (Flt (1 / 4)) 1 0 = Inr (Flt 10)"
    by (simp add: node_price_def py_pow_def binary64_unfold fl64_eval)
  note inst = no_arbitrage_check [OF df e p out, where stock_price = "Flt 40"
      and ex_price = "Flt 15"]
  have a: "\<exists>res. option_tree binary64 (Flt 40) (Flt 15) (Flt (1 / 2)) (Flt (1 / 4)) (Flt 0) 1 (Flt 1) =
        Inr res \<and>
      length (stock_tree res) = nat 1 + 1 \<and> length (option_grid res) = nat 1 + 1 \<and>
      option_grid res ! 0 ! 0 =
        py_max0 (f_mul binary64 (Flt 1)
          (f_add binary64 (f_mul binary64 (Flt 3) (option_grid res ! 1 ! 1))
             (f_mul binary64 (f_sub binary64 (Flt 1) (Flt 3)) (option_grid res ! 1 ! 0))))"
    using inst [where time_steps = 1] ok by fastforce
  have b: "option_tree binary64 (Flt 40) (Flt 15) (Flt (1 / 2)) (Flt (1 / 4)) (Flt 0) (- 1) (Flt 1) =
      Inl IndexError"
    using inst [where time_steps = "- 1"] by simp
  from df e p out n10 a b show ?thesis
    by simp
qed

text \<open>
  C6, as the claim states it: some configuration chosen by the caller makes the pricer
  compute the put payoff instead of the call payoff. No input does: \<^verbatim>\<open>option_tree\<close>
  takes the seven arguments of the model and none selects a payoff, and whenever it
  returns the last row holds the call payoff. On doubles, with \<open>S0 = 40\<close>, \<open>K = 50\<close>
  and \<open>N = 0\<close> the value is 0 where the put payoff is 10.
\<close>

theorem put_payoff_counterexample:
  "\<not> (\<exists>P stock_price ex_price uptick downtick risk_free_pct time_steps delta_time_step res j.
        option_tree P stock_price ex_price uptick downtick risk_free_pct time_steps
          delta_time_step = Inr res \<and>
        j \<le> nat time_steps \<and>
        option_grid res ! nat time_steps ! j \<noteq>
          py_max0 (f_sub P (stock_tree res ! nat time_steps ! j) ex_price)) \<and>
   option_tree binary64 (Flt 40) (Flt 50) (Flt (3 / 2)) (Flt (1 / 2)) (Flt 0) 0 (Flt 1) =
     Inr \<lparr>printed_root = Flt 0, stock_tree = [[Flt 40]], option_grid = [[Flt 0]]\<rparr> \<and>
   py_max0 (f_sub binary64 (Flt 50) (Flt 40)) = Flt 10"
proof (intro conjI notI)
  assume "\<exists>P stock_price ex_price uptick downtick risk_free_pct time_steps delta_time_step res j.
        option_tree P stock_price ex_price uptick downtick risk_free_pct time_steps
          delta_time_step = Inr res \<and>
        j \<le> nat time_steps \<and>
        option_grid res ! nat time_steps ! j \<noteq>
          py_max0 (f_sub P (stock_tree res ! nat time_steps ! j) ex_price)"
  then obtain P stock_price ex_price uptick downtick risk_free_pct time_steps delta_time_step res j
    where run: "option_tree P stock_price ex_price uptick downtick risk_free_pct time_steps
          delta_time_step = Inr res"
      and j: "j \<le> nat time_steps"
      and ne: "option_grid res ! nat time_steps ! j \<noteq>
          py_max0 (f_sub P (stock_tree res ! nat time_steps ! j) ex_price)"
    by blast
  from option_tree_returned [OF run]
  have "\<forall>j\<le>nat time_steps. option_grid res ! nat time_steps ! j =
      payoff P ex_price (stock_tree res ! nat time_steps ! j)"
    by blast
  with j ne show False
    by (simp add: payoff_def)
next
  show "option_tree binary64 (Flt 40) (Flt 50) (Flt (3 / 2)) (Flt (1 / 2)) (Flt 0) 0 (Flt 1) =
     Inr \<lparr>printed_root = Flt 0, stock_tree = [[Flt 40]], option_grid = [[Flt 0]]\<rparr>"
    by (simp add: option_tree_unfold binary64_unfold fl64_eval)
next
  show "py_max0 (f_sub binary64 (Flt 50) (Flt 40)) = Flt 10"
    by (simp add: py_max0_def binary64_unfold fl64_eval)
qed

text \<open>
  C6, amended. The payoff kind is hardcoded: \<^verbatim>\<open>option_tree\<close> takes no argument that
  selects it, and on every input on which it returns, every entry of the terminal row
  is the call payoff \<open>max(0, price(N, j) - K)\<close>; it is not the put payoff
  \<open>max(0, K - price(N, j))\<close> wherever the two differ.
\<close>

theorem terminal_payoff_is_call:
  assumes run: "option_tree P stock_price ex_price uptick downtick risk_free_pct time_steps
             delta_time_step = Inr res"
    and j: "j \<le> nat time_steps"
  shows "option_grid res ! nat time_steps ! j =
           py_max0 (f_sub P (stock_tree res ! nat time_steps ! j) ex_price) \<and>
         (py_max0 (f_sub P (stock_tree res ! nat time_steps ! j) ex_price) \<noteq>
          py_max0 (f_sub P ex_price (stock_tree res ! nat time_steps ! j)) \<longrightarrow>
          option_grid res ! nat time_steps ! j \<noteq>
            py_max0 (f_sub P ex_price (stock_tree res ! nat time_steps ! j)))"
proof -
  from option_tree_returned [OF run]
  have "\<forall>j\<le>nat time_steps. option_grid res ! nat time_steps ! j =
      payoff P ex_price (stock_tree res ! nat time_steps ! j)"
    by blast
  with j show ?thesis
    by (simp add: payoff_def)
qed

theorem terminal_payoff_is_call_witness:
  "option_tree binary64 (Flt 40) (Flt 50) (Flt (3 / 2)) (Flt (1 / 2)) (Flt 0) 0 (Flt 1) =
     Inr \<lparr>printed_root = Flt 0, stock_tree = [[Flt 40]], option_grid = [[Flt 0]]\<rparr> \<and>
   (0 :: nat) \<le> nat 0 \<and>
   Flt 0 = py_max0 (f_sub binary64 (Flt 40) (Flt 50)) \<and>
   py_max0 (f_sub binary64 (Flt 40) (Flt 50)) \<noteq> py_max0 (f_sub binary64 (Flt 50) (Flt 40)) \<and>
   Flt 0 \<noteq> py_max0 (f_sub binary64 (Flt 50) (Flt 40))"
proof -
  let ?res = "\<lparr>printed_root = Flt 0, stock_tree = [[Flt 40]], option_grid = [[Flt 0]]\<rparr>"
  have run: "option_tree binary64 (Flt 40) (Flt 50) (Flt (3 / 2)) (Flt (1 / 2)) (Flt 0) 0 (Flt 1) =
      Inr ?res"
    by (simp add: option_tree_unfold binary64_unfold fl64_eval)
  have j: "(0 :: nat) \<le> nat 0"
    by simp
  have differ: "py_max0 (f_sub binary64 (Flt 40) (Flt 50)) \<noteq>
      py_max0 (f_sub binary64 (Flt 50) (Flt 40))"
    by (simp add: py_max0_def binary64_unfold fl64_eval)
  from terminal_payoff_is_call [OF run j] differ
  have "Flt 0 = py_max0 (f_sub binary64 (Flt 40) (Flt 50))"
    and "Flt 0 \<noteq> py_max0 (f_sub binary64 (Flt 50) (Flt 40))"
    by simp_all
  with run j differ show ?thesis
    by blast
qed

text \<open>
  C7. On every input on which the call returns, every entry of the value grid it
  returns is \<open>\<ge> 0\<close>, at every step and every level: it is zero, a positive number or
  the positive infinity, and never NaN. A call that returns has \<open>N \<ge> 0\<close> and a
  difference \<open>u - d\<close> that is not zero, so the claim's two conditions need not be assumed.
\<close>

theorem option_grid_nonneg:
  assumes run: "option_tree P stock_price ex_price uptick downtick risk_free_pct time_steps
             delta_time_step = Inr res"
  shows "\<forall>row\<in>set (option_grid res). \<forall>v\<in>set row. py_ge v (Flt 0)"
proof (intro ballI)
  fix row v
  assume row: "row \<in> set (option_grid res)" and v: "v \<in> set row"
  from option_tree_returned [OF run]
  obtain df p where tri: "triangular (nat time_steps + 1) (option_grid res)"
    and last: "\<forall>j\<le>nat time_steps. option_grid res ! nat time_steps ! j =
           payoff P ex_price (stock_tree res ! nat time_steps ! j)"
    and inner: "\<forall>step<nat time_steps. \<forall>j\<le>step. option_grid res ! step ! j =
           node_value P p df (option_grid res ! (step + 1) ! (j + 1))
             (option_grid res ! (step + 1) ! j)"
    by blast
  from row obtain i where i: "i < length (option_grid res)" "row = option_grid res ! i"
    by (auto simp: in_set_conv_nth)
  from v obtain j where j: "j < length row" "v = row ! j"
    by (auto simp: in_set_conv_nth)
  from tri i j have bounds: "i \<le> nat time_steps" "j \<le> i"
    by (simp_all add: triangular_def)
  show "py_ge v (Flt 0)"
  proof (cases "i = nat time_steps")
    case True
    with last bounds i j show ?thesis
      by (simp add: payoff_def py_max0_ge)
  next
    case False
    with bounds have "i < nat time_steps"
      by simp
    with inner bounds i j show ?thesis
      by (simp add: node_value_def py_max0_ge)
  qed
qed

theorem option_grid_nonneg_witness:
  "option_tree binary64 (Flt 40) (Flt 40) (Flt (3 / 2)) (Flt (1 / 2)) (Flt 0) 1 (Flt 1) =
     Inr \<lparr>printed_root = Flt 10, stock_tree = [[Flt 40], [Flt 20, Flt 60]],
          option_grid = [[Flt 10], [Flt 0, Flt 20]]\<rparr> \<and>
   py_ge (Flt 10) (Flt 0) \<and> py_ge (Flt 0) (Flt 0) \<and> py_ge (Flt 20) (Flt 0)"
proof -
  let ?res = "\<lparr>printed_root = Flt 10, stock_tree = [[Flt 40], [Flt 20, Flt 60]],
          option_grid = [[Flt 10], [Flt 0, Flt 20]]\<rparr>"
  have run: "option_tree binary64 (Flt 40) (Flt 40) (Flt (3 / 2)) (Flt (1 / 2)) (Flt 0) 1 (Flt 1) =
      Inr ?res"
    by (rule binary64_run1)
  from option_grid_nonneg [OF run]
  have all: "\<forall>row\<in>set [[Flt 10], [Flt 0, Flt 20]]. \<forall>v\<in>set row. py_ge v (Flt 0)"
    by simp
  then have "py_ge (Flt 10) (Flt 0)" "py_ge (Flt 0) (Flt 0)" "py_ge (Flt 20) (Flt 0)"
    by auto
  with run show ?thesis
    by blast
qed




text \<open>
  C9, as the claim states it: with \<open>N = 0\<close> and \<open>u \<noteq> d\<close> the call returns. On doubles
  it does not when \<^verbatim>\<open>math.exp\<close> overflows: with \<^verbatim>\<open>risk_free_pct = 200000.0\<close> and
  \<^verbatim>\<open>delta_time_step = 1.0\<close> line 42 gives \<^verbatim>\<open>0.0\<close> and line 43 raises OverflowError.
\<close>

theorem single_node_tree_counterexample:
  "option_tree binary64 (Flt 40) (Flt 30) (Flt 2) (Flt (1 / 2)) (Flt 200000) 0 (Flt 1) =
     Inl OverflowError \<and>
   Flt 2 \<noteq> Flt (1 / 2)"
  by (simp add: option_tree_def discount_factor_def growth_e_def risk_free_rate_def
      binary64_unfold fl64_eval fl64_exp_2000 fl64_exp_minus_2000)

text \<open>
  C9, amended. For \<open>N = 0\<close>, whenever lines 42 to 44 raise nothing (neither
  \<^verbatim>\<open>math.exp\<close> overflows and the difference \<open>u - d\<close> is not zero), the call returns a
  price grid of exactly one node, \<open>S0 \<cdot> 1.0 \<cdot> 1.0\<close>, which is \<open>S0\<close> where multiplying
  \<open>S0\<close> by \<open>1.0\<close> gives \<open>S0\<close> (as it does for every double), and a value grid whose
  single entry is \<open>max(0, S0 - K)\<close>, which is also the root price printed; the
  backward-induction loop performs zero iterations.
\<close>

theorem single_node_tree:
  assumes "discount_factor P risk_free_pct delta_time_step = Inr df"
    and "growth_e P risk_free_pct delta_time_step = Inr e"
    and "prob_p P e uptick downtick = Inr p"
    and "f_mul P stock_price (Flt 1) = stock_price"
  shows "option_tree P stock_price ex_price uptick downtick risk_free_pct 0 delta_time_step =
           Inr \<lparr>printed_root = py_max0 (f_sub P stock_price ex_price),
                stock_tree = [[stock_price]],
                option_grid = [[py_max0 (f_sub P stock_price ex_price)]]\<rparr> \<and>
         backward_steps 0 = []"
  using assms
  by (simp add: option_tree_def fill_stock_def fill_terminal_def induct_back_def
      backward_steps_def range_upto_def range_downto_def zero_tree_def stock_body_def
      terminal_body_def node_price_def payoff_def py_pow_def grid_get_def grid_set_def)

theorem single_node_tree_witness:
  "discount_factor binary64 (Flt 0) (Flt 1) = Inr (Flt 1) \<and>
   growth_e binary64 (Flt 0) (Flt 1) = Inr (Flt 1) \<and>
   prob_p binary64 (Flt 1) (Flt (3 / 2)) (Flt (1 / 2)) = Inr (Flt (1 / 2)) \<and>
   f_mul binary64 (Flt 40) (Flt 1) = Flt 40 \<and>
   option_tree binary64 (Flt 40) (Flt 30) (Flt (3 / 2)) (Flt (1 / 2)) (Flt 0) 0 (Flt 1) =
     Inr \<lparr>printed_root = Flt 10, stock_tree = [[Flt 40]], option_grid = [[Flt 10]]\<rparr> \<and>
   backward_steps 0 = []"
proof -
  have df: "discount_factor binary64 (Flt 0) (Flt 1) = Inr (Flt 1)"
    by (simp add: discount_factor_def risk_free_rate_def binary64_unfold fl64_eval)
  have e: "growth_e binary64 (Flt 0) (Flt 1) = Inr (Flt 1)"
    by (simp add: growth_e_def risk_free_rate_def binary64_unfold fl64_eval)
  have p: "prob_p binary64 (Flt 1) (Flt (3 / 2)) (Flt (1 / 2)) = Inr (Flt (1 / 2))"
    by (simp add: prob_p_def py_truediv_def binary64_unfold fl64_eval)
  have one: "f_mul binary64 (Flt 40) (Flt 1) = Flt 40"
    by (simp add: binary64_unfold fl64_eval)
  have "py_max0 (f_sub binary64 (Flt 40) (Flt 30)) = Flt 10"
    by (simp add: py_max0_def binary64_unfold fl64_eval)
  with single_node_tree [OF df e p one, of "Flt 30"] df e p one show ?thesis
    by simp
qed

text \<open>
  C10. That equal arguments give equal grids is not a theorem about the body: the
  embedding \<open>option_tree\<close> is a function of the platform and the seven arguments, and
  equal arguments give equal outcomes of any function. That the Python body reads
  nothing else (no global, clock, random source or input) is how the embedding was
  read off the source, and is not expressible in it.
\<close>

end
